theory Spec2Isabelle
  imports
    Complex_Main
    "HOL-Library.Multiset"
    "HOL-Library.Sublist"
    "HOL-Library.Char_ord"
    "HOL-Library.List_Lexorder"
begin

section \<open>The ship-traffic explorer of \<^verbatim>\<open>titanic.py\<close>\<close>

text \<open>
  The program is a command loop over a list of ship records. A record is a Python
  dictionary from field names to text, so it is a map from strings to strings, and a
  subscript of a missing field raises \<^verbatim>\<open>KeyError\<close>. Exceptions are values of
  \<open>py_error\<close>; a function that can raise returns \<open>py_error + 'a\<close>.

  A Python \<^verbatim>\<open>str\<close> is modelled by \<open>string\<close>, each \<open>char\<close> read as the code point
  of the same number (0 to 255). Text with code points above 255 is outside the model.
  The built-in functions and methods the program calls (\<^verbatim>\<open>sorted\<close>, \<^verbatim>\<open>strip\<close>,
  \<^verbatim>\<open>split\<close>, \<^verbatim>\<open>isnumeric\<close>, \<^verbatim>\<open>int\<close>, \<^verbatim>\<open>input\<close>, \<^verbatim>\<open>print\<close>, slicing) are
  defined here as Python defines them; the data loader is outside the program, and the
  loaded list of records is an argument.
\<close>

subsection \<open>Records, exceptions and constants\<close>

type_synonym ship = "string \<rightharpoonup> string"

datatype py_error =
    KeyError string
  | ValueError string
  | TypeError string
  | IndexError
  | StatisticsError string
  | EOFError

definition COUNTRY_KEY :: string where "COUNTRY_KEY = ''COUNTRY''"
definition TYPE_KEY :: string where "TYPE_KEY = ''TYPE_SUMMARY''"
definition SHIP_NAME_KEY :: string where "SHIP_NAME_KEY = ''SHIPNAME''"
definition SPEED_KEY :: string where "SPEED_KEY = ''SPEED''"
definition LONGITUDE_KEY :: string where "LONGITUDE_KEY = ''LON''"
definition LATITUDE_KEY :: string where "LATITUDE_KEY = ''LAT''"
definition SEARCH_ACCURACY :: nat where "SEARCH_ACCURACY = 85"

text \<open>\<^verbatim>\<open>ship[key]\<close>.\<close>

definition getitem :: "ship \<Rightarrow> string \<Rightarrow> py_error + string" where
  "getitem ship k = (case ship k of None \<Rightarrow> Inl (KeyError k) | Some v \<Rightarrow> Inr v)"

subsection \<open>Grouping: \<^verbatim>\<open>analyze_traffic_data_by\<close>\<close>

text \<open>
  \<^verbatim>\<open>analyzed_dict\<close> is a dictionary from a field value to a set of ship names. A Python
  dictionary iterates in insertion order, and the ranking depends on that order, so the
  dictionary is the list of its items in insertion order, with distinct keys.
\<close>

type_synonym items = "(string \<times> string set) list"

text \<open>\<^verbatim>\<open>analyzed_dict[k].add(name)\<close>: the item of key \<open>k\<close> is updated where it stands.\<close>

definition dict_add :: "items \<Rightarrow> string \<Rightarrow> string \<Rightarrow> items" where
  "dict_add d k name = map (\<lambda>(k', g). if k' = k then (k', insert name g) else (k', g)) d"

text \<open>
  One iteration of the loop over \<^verbatim>\<open>traffic_data\<close>: the test \<^verbatim>\<open>ship[by_key] not in
  analyzed_dict\<close>, the new empty set at the end of the dictionary, then the insertion of
  \<^verbatim>\<open>ship[SHIP_NAME_KEY]\<close>.
\<close>

definition analyze_step :: "string \<Rightarrow> items \<Rightarrow> ship \<Rightarrow> py_error + items" where
  "analyze_step by_key d ship =
     (case getitem ship by_key of
        Inl e \<Rightarrow> Inl e
      | Inr k \<Rightarrow>
          (let d1 = (if map_of d k = None then d @ [(k, {})] else d) in
           case getitem ship SHIP_NAME_KEY of
             Inl e \<Rightarrow> Inl e
           | Inr name \<Rightarrow> Inr (dict_add d1 k name)))"

fun analyze_loop :: "string \<Rightarrow> items \<Rightarrow> ship list \<Rightarrow> py_error + items" where
  "analyze_loop by_key d [] = Inr d"
| "analyze_loop by_key d (ship # rest) =
     (case analyze_step by_key d ship of
        Inl e \<Rightarrow> Inl e
      | Inr d' \<Rightarrow> analyze_loop by_key d' rest)"

text \<open>
  \<^verbatim>\<open>sorted(xs, key=f, reverse=True)\<close>. Python reverses the list, sorts it with a stable
  ascending sort, and reverses the result.
\<close>

definition py_sorted_reverse :: "('a \<Rightarrow> 'k::linorder) \<Rightarrow> 'a list \<Rightarrow> 'a list" where
  "py_sorted_reverse key xs = rev (sort_key key (rev xs))"

text \<open>
  The function returns the dictionary itself, or with \<^verbatim>\<open>is_sorted\<close> the list of its
  items sorted by \<^verbatim>\<open>len\<close> of the set, largest first. Both are a list of items here:
  iterating the dictionary gives the first components, in this order.
\<close>

definition analyze_traffic_data_by :: "ship list \<Rightarrow> string \<Rightarrow> bool \<Rightarrow> py_error + items" where
  "analyze_traffic_data_by traffic_data by_key is_sorted =
     (case analyze_loop by_key [] traffic_data of
        Inl e \<Rightarrow> Inl e
      | Inr analyzed_dict \<Rightarrow>
          if is_sorted
          then Inr (py_sorted_reverse (\<lambda>x. card (snd x)) analyzed_dict)
          else Inr analyzed_dict)"

subsection \<open>What the grouping is meant to be\<close>

text \<open>The field values of a dataset in the order of their first occurrence.\<close>

fun first_seen :: "'a list \<Rightarrow> 'a list" where
  "first_seen [] = []"
| "first_seen (x # xs) = x # removeAll x (first_seen xs)"

text \<open>The distinct ship names of the records that carry the value \<open>k\<close> in \<open>field\<close>.\<close>

definition group_of :: "ship list \<Rightarrow> string \<Rightarrow> string \<Rightarrow> string set" where
  "group_of traffic_data field k =
     (\<lambda>s. the (s SHIP_NAME_KEY)) ` set (filter (\<lambda>s. s field = Some k) traffic_data)"

definition grouping :: "ship list \<Rightarrow> string \<Rightarrow> items" where
  "grouping traffic_data field =
     map (\<lambda>k. (k, group_of traffic_data field k))
       (first_seen (map (\<lambda>s. the (s field)) traffic_data))"

text \<open>Every record has the grouping field and the ship name.\<close>

definition has_fields :: "string \<Rightarrow> ship list \<Rightarrow> bool" where
  "has_fields field traffic_data =
     list_all (\<lambda>s. s field \<noteq> None \<and> s SHIP_NAME_KEY \<noteq> None) traffic_data"

subsection \<open>Text: the methods of \<^verbatim>\<open>str\<close> the program uses\<close>

text \<open>
  \<^verbatim>\<open>str.isspace\<close> on the code points below 256: tab to carriage return, the four
  separators 28 to 31, the space, NEL (133) and the no-break space (160).
\<close>

definition isspace :: "char \<Rightarrow> bool" where
  "isspace c \<longleftrightarrow>
     c \<in> set [CHR 0x09, CHR 0x0A, CHR 0x0B, CHR 0x0C, CHR 0x0D, CHR 0x1C, CHR 0x1D, CHR 0x1E,
              CHR 0x1F, CHR 0x20, CHR 0x85, CHR 0xA0]"

text \<open>\<^verbatim>\<open>s.strip()\<close>.\<close>

definition strip :: "string \<Rightarrow> string" where
  "strip s = rev (dropWhile isspace (rev (dropWhile isspace s)))"

text \<open>
  \<^verbatim>\<open>s.split(maxsplit=1)\<close>: leading whitespace is skipped, the first word ends at the
  next whitespace, and what follows that whitespace run is the second element as it is.
\<close>

definition split_maxsplit1 :: "string \<Rightarrow> string list" where
  "split_maxsplit1 s =
     (let s1 = dropWhile isspace s in
      if s1 = [] then []
      else
        let word = takeWhile (\<lambda>c. \<not> isspace c) s1;
            rest = dropWhile isspace (dropWhile (\<lambda>c. \<not> isspace c) s1)
        in if rest = [] then [word] else [word, rest])"

text \<open>The ASCII digits: the only decimal digits below code point 256.\<close>

definition decimal_digit :: "char \<Rightarrow> bool" where
  "decimal_digit c \<longleftrightarrow> c \<in> set ''0123456789''"

text \<open>
  \<^verbatim>\<open>str.isnumeric\<close>: the string is not empty and every character has a Unicode numeric
  value. Below code point 256 these are the ASCII digits, the superscripts two, three and
  one (178, 179, 185) and the fractions one quarter, one half and three quarters (188 to
  190).
\<close>

definition numeric_char :: "char \<Rightarrow> bool" where
  "numeric_char c \<longleftrightarrow>
     decimal_digit c \<or> c \<in> set [CHR 0xB2, CHR 0xB3, CHR 0xB9, CHR 0xBC, CHR 0xBD, CHR 0xBE]"

definition isnumeric :: "string \<Rightarrow> bool" where
  "isnumeric s \<longleftrightarrow> s \<noteq> [] \<and> list_all numeric_char s"

text \<open>
  \<^verbatim>\<open>int(x)\<close>: \<^verbatim>\<open>TypeError\<close> on \<^verbatim>\<open>None\<close>; on a string, surrounding whitespace and one
  sign are allowed, then decimal digits, with single underscores between digits only;
  anything else is a \<^verbatim>\<open>ValueError\<close>. The message texts of built-in exceptions are
  shortened. The limit of 4300 digits that recent Python versions put on the conversion
  is not modelled.
\<close>

fun int_body :: "bool \<Rightarrow> string \<Rightarrow> bool" where
  "int_body after_digit [] = after_digit"
| "int_body after_digit (c # cs) =
     (if decimal_digit c then int_body True cs
      else if c = CHR ''_'' \<and> after_digit then int_body False cs
      else False)"

definition digit_value :: "char \<Rightarrow> nat" where
  "digit_value c = length (takeWhile (\<lambda>d. d \<noteq> c) ''0123456789'')"

definition digits_value :: "string \<Rightarrow> nat" where
  "digits_value s = foldl (\<lambda>a c. 10 * a + digit_value c) 0 (filter decimal_digit s)"

definition py_int :: "string option \<Rightarrow> py_error + int" where
  "py_int x =
     (case x of
        None \<Rightarrow> Inl (TypeError ''int() argument must be a string or a number'')
      | Some s \<Rightarrow>
          (let t = strip s;
               negative = (t \<noteq> [] \<and> hd t = CHR ''-'');
               body = (if t \<noteq> [] \<and> (hd t = CHR ''-'' \<or> hd t = CHR ''+'') then tl t else t)
           in if int_body False body
              then Inr ((if negative then - 1 else 1) * int (digits_value body))
              else Inl (ValueError ''invalid literal for int() with base 10'')))"

text \<open>\<^verbatim>\<open>str(n)\<close> for a length.\<close>

fun str_nat :: "nat \<Rightarrow> string" where
  "str_nat n =
     (if n < 10 then [''0123456789'' ! n]
      else str_nat (n div 10) @ [''0123456789'' ! (n mod 10)])"

declare str_nat.simps [simp del]

text \<open>\<^verbatim>\<open>xs[:n]\<close>: a negative \<open>n\<close> counts from the end.\<close>

definition slice_upto :: "'a list \<Rightarrow> int \<Rightarrow> 'a list" where
  "slice_upto xs n = (if 0 \<le> n then take (nat n) xs else take (length xs - nat (- n)) xs)"

subsection \<open>The world: terminal, figure and files\<close>

text \<open>
  Floating-point numbers are values of a type \<open>'f\<close> that is left open. What the
  libraries compute is a parameter of the model:
  \<^item> \<open>set_iter xs\<close> is the order in which Python iterates the set built from the elements
    \<open>xs\<close>; Python promises only that every element comes once (\<open>set_iter_ok\<close>);
  \<^item> \<open>scorer query choice\<close> is the similarity ratio of \<^verbatim>\<open>thefuzz\<close>, from 0 to 100;
  \<^item> \<open>pfloat s\<close> is \<^verbatim>\<open>float(s)\<close>, \<open>None\<close> where it raises \<^verbatim>\<open>ValueError\<close>;
  \<^item> \<open>fmean xs\<close> is \<^verbatim>\<open>statistics.mean(xs)\<close> on a list that is not empty.
\<close>

record 'f libs =
  set_iter :: "string list \<Rightarrow> string list"
  scorer :: "string \<Rightarrow> string \<Rightarrow> nat"
  pfloat :: "string \<Rightarrow> 'f option"
  fmean :: "'f list \<Rightarrow> 'f"

definition set_iter_ok :: "(string list \<Rightarrow> string list) \<Rightarrow> bool" where
  "set_iter_ok it \<longleftrightarrow> (\<forall>xs. set (it xs) = set xs \<and> distinct (it xs))"

text \<open>
  A saved histogram image holds every histogram drawn on the current \<^verbatim>\<open>pyplot\<close> figure
  (the program never clears it); the map document holds its centre and its markers.
\<close>

datatype 'f artifact =
    HistogramPng "'f list list"
  | ShipMapHtml "'f \<times> 'f" "(string \<times> 'f \<times> 'f) list"

text \<open>
  \<open>stdin\<close> holds the lines still to be read, \<open>stdout\<close> the texts written so far, one
  entry for each \<^verbatim>\<open>print\<close> call (without its final newline) and each prompt.
\<close>

record 'f world =
  stdin :: "string list"
  stdout :: "string list"
  figure :: "'f list list"
  files :: "string \<rightharpoonup> 'f artifact"

type_synonym ('f, 'a) action = "'f world \<Rightarrow> (py_error + 'a) \<times> 'f world"

definition py_print :: "string \<Rightarrow> 'f world \<Rightarrow> 'f world" where
  "py_print s w = w\<lparr>stdout := stdout w @ [s]\<rparr>"

fun print_all :: "string list \<Rightarrow> 'f world \<Rightarrow> 'f world" where
  "print_all [] w = w"
| "print_all (s # ss) w = print_all ss (py_print s w)"

text \<open>\<^verbatim>\<open>input(prompt)\<close>; at the end of the input it raises \<^verbatim>\<open>EOFError\<close>.\<close>

definition py_input :: "string \<Rightarrow> ('f, string) action" where
  "py_input prompt w =
     (let w1 = (if prompt = [] then w else py_print prompt w) in
      case stdin w1 of
        [] \<Rightarrow> (Inl EOFError, w1)
      | line # rest \<Rightarrow> (Inr line, w1\<lparr>stdin := rest\<rparr>))"

text \<open>A list comprehension whose element expression can raise.\<close>

fun comprehension :: "('a \<Rightarrow> py_error + 'b) \<Rightarrow> 'a list \<Rightarrow> py_error + 'b list" where
  "comprehension f [] = Inr []"
| "comprehension f (x # xs) =
     (case f x of
        Inl e \<Rightarrow> Inl e
      | Inr y \<Rightarrow> (case comprehension f xs of Inl e \<Rightarrow> Inl e | Inr ys \<Rightarrow> Inr (y # ys)))"

subsection \<open>Printing: \<^verbatim>\<open>print_iterable\<close>\<close>

text \<open>
  The two branches of \<^verbatim>\<open>print_iterable\<close>. Every caller passes \<^verbatim>\<open>value\<close> as a constant:
  without it the items are strings, with it they are pairs of a key and a set.
\<close>

definition print_iterable :: "string list \<Rightarrow> 'f world \<Rightarrow> 'f world" where
  "print_iterable iterable w = py_print [] (print_all iterable w)"

definition key_count_line :: "string \<times> string set \<Rightarrow> string" where
  "key_count_line item = fst item @ '': '' @ str_nat (card (snd item))"

definition print_iterable_value :: "items \<Rightarrow> 'f world \<Rightarrow> 'f world" where
  "print_iterable_value iterable w = py_print [] (print_all (map key_count_line iterable) w)"

subsection \<open>The handlers\<close>

definition print_functions :: "string list \<Rightarrow> 'f world \<Rightarrow> 'f world" where
  "print_functions dispatch_dict w =
     py_print []
       (print_all
          (map (\<lambda>func. if func = ''top_countries'' then func @ '' '' @ '' <num_countries>'' else func)
             dispatch_dict)
          (py_print (CHR 0x0A # ''Available commands:'') w))"

definition get_all_countries :: "ship list \<Rightarrow> ('f, unit) action" where
  "get_all_countries traffic_data w =
     (case analyze_traffic_data_by traffic_data COUNTRY_KEY False of
        Inl e \<Rightarrow> (Inl e, w)
      | Inr countries_data \<Rightarrow> (Inr (), print_iterable (sort (map fst countries_data)) w))"

text \<open>The keyword argument \<^verbatim>\<open>num=5\<close>: \<open>None\<close> is a call that leaves it out.\<close>

definition top_n_countries :: "ship list \<Rightarrow> int option \<Rightarrow> ('f, unit) action" where
  "top_n_countries traffic_data num_arg w =
     (let num = (case num_arg of None \<Rightarrow> 5 | Some n \<Rightarrow> n) in
      case analyze_traffic_data_by traffic_data COUNTRY_KEY True of
        Inl e \<Rightarrow> (Inl e, w)
      | Inr countries_data \<Rightarrow> (Inr (), print_iterable_value (slice_upto countries_data num) w))"

definition get_all_ship_types :: "ship list \<Rightarrow> ('f, unit) action" where
  "get_all_ship_types traffic_data w =
     (case analyze_traffic_data_by traffic_data TYPE_KEY True of
        Inl e \<Rightarrow> (Inl e, w)
      | Inr type_data \<Rightarrow> (Inr (), print_iterable_value type_data w))"

text \<open>
  \<^verbatim>\<open>thefuzz\<close> is a library the program imports, not part of the repository, so
  \<^verbatim>\<open>process.extract(query, choices, limit=5)\<close> is modelled by what its documentation
  promises: every choice is scored, the pairs of a choice and its score are ordered by
  descending score, and the first \<open>limit\<close> of them are returned. The program leaves
  \<^verbatim>\<open>limit\<close> at its default, 5. The order among choices of equal score is that of the
  iteration here; the library may order them otherwise, and nothing below depends on it.
\<close>

definition process_extract ::
    "(string \<Rightarrow> string \<Rightarrow> nat) \<Rightarrow> string \<Rightarrow> string list \<Rightarrow> nat \<Rightarrow> (string \<times> nat) list" where
  "process_extract score query choices limit =
     take limit (py_sorted_reverse snd (map (\<lambda>choice. (choice, score query choice)) choices))"

definition extract_default_limit :: nat where
  "extract_default_limit = 5"

text \<open>The list \<^verbatim>\<open>search_results\<close> of \<^verbatim>\<open>search_ship_by_name\<close>, from the names in record order.\<close>

definition search_results :: "'f libs \<Rightarrow> string list \<Rightarrow> string \<Rightarrow> string list" where
  "search_results libs names search_key =
     map fst
       (filter (\<lambda>(ship_name, ratio). ratio > SEARCH_ACCURACY)
          (process_extract (scorer libs) search_key (set_iter libs names) extract_default_limit))"

definition search_ship_by_name :: "'f libs \<Rightarrow> ship list \<Rightarrow> ('f, unit) action" where
  "search_ship_by_name libs traffic_data w =
     (case comprehension (\<lambda>ship. getitem ship SHIP_NAME_KEY) traffic_data of
        Inl e \<Rightarrow> (Inl e, w)
      | Inr names \<Rightarrow>
          (case py_input ''Enter the search query: '' w of
             (Inl e, w1) \<Rightarrow> (Inl e, w1)
           | (Inr search_key, w1) \<Rightarrow>
               (let results = search_results libs names search_key in
                if results \<noteq> []
                then (Inr (), print_iterable results (py_print ''Did you mean any of these?'' w1))
                else (Inr (), py_print ''No results found'' w1))))"

text \<open>\<^verbatim>\<open>float(ship[key])\<close>.\<close>

definition getfloat :: "'f libs \<Rightarrow> string \<Rightarrow> ship \<Rightarrow> py_error + 'f" where
  "getfloat libs key ship =
     (case getitem ship key of
        Inl e \<Rightarrow> Inl e
      | Inr s \<Rightarrow>
          (case pfloat libs s of
             None \<Rightarrow> Inl (ValueError ''could not convert string to float'')
           | Some x \<Rightarrow> Inr x))"

definition save_speed_histogram :: "'f libs \<Rightarrow> ship list \<Rightarrow> ('f, unit) action" where
  "save_speed_histogram libs traffic_data w =
     (case py_input ''What's the file name should be? '' w of
        (Inl e, w1) \<Rightarrow> (Inl e, w1)
      | (Inr file_name, w1) \<Rightarrow>
          (case comprehension (getfloat libs SPEED_KEY) traffic_data of
             Inl e \<Rightarrow> (Inl e, w1)
           | Inr all_ships_speed \<Rightarrow>
               (let w2 = w1\<lparr>figure := figure w1 @ [all_ships_speed]\<rparr>;
                    w3 = w2\<lparr>files := (files w2)(file_name @ ''.png'' \<mapsto> HistogramPng (figure w2))\<rparr>
                in (Inr (),
                    py_print (''The ship speed histogram was saved as '' @ file_name @ ''.png'') w3))))"

text \<open>\<^verbatim>\<open>statistics.mean\<close>.\<close>

definition statistics_mean :: "'f libs \<Rightarrow> 'f list \<Rightarrow> py_error + 'f" where
  "statistics_mean libs xs =
     (if xs = [] then Inl (StatisticsError ''mean requires at least one data point'')
      else Inr (fmean libs xs))"

definition ship_location :: "'f libs \<Rightarrow> ship \<Rightarrow> py_error + string \<times> 'f \<times> 'f" where
  "ship_location libs ship =
     (case getitem ship SHIP_NAME_KEY of
        Inl e \<Rightarrow> Inl e
      | Inr name \<Rightarrow>
          (case getfloat libs LATITUDE_KEY ship of
             Inl e \<Rightarrow> Inl e
           | Inr lat \<Rightarrow>
               (case getfloat libs LONGITUDE_KEY ship of
                  Inl e \<Rightarrow> Inl e
                | Inr lon \<Rightarrow> Inr (name, lat, lon))))"

definition mean_of :: "'f libs \<Rightarrow> string \<Rightarrow> ship list \<Rightarrow> py_error + 'f" where
  "mean_of libs key traffic_data =
     (case comprehension (getfloat libs key) traffic_data of
        Inl e \<Rightarrow> Inl e
      | Inr xs \<Rightarrow> statistics_mean libs xs)"

text \<open>
  \<^verbatim>\<open>draw_plot_map\<close>. What \<^verbatim>\<open>folium\<close> itself may refuse (a centre that is not a number)
  is not modelled: the map is the centre and the markers.
\<close>

definition draw_plot_map :: "'f libs \<Rightarrow> ship list \<Rightarrow> ('f, unit) action" where
  "draw_plot_map libs traffic_data w =
     (case comprehension (ship_location libs) traffic_data of
        Inl e \<Rightarrow> (Inl e, w)
      | Inr ship_locations \<Rightarrow>
          (case mean_of libs LATITUDE_KEY traffic_data of
             Inl e \<Rightarrow> (Inl e, w)
           | Inr mean_lat \<Rightarrow>
               (case mean_of libs LONGITUDE_KEY traffic_data of
                  Inl e \<Rightarrow> (Inl e, w)
                | Inr mean_lon \<Rightarrow>
                    (Inr (),
                     w\<lparr>files := (files w)(''ship_map.html'' \<mapsto>
                          ShipMapHtml (mean_lat, mean_lon) ship_locations)\<rparr>))))"

subsection \<open>The dispatch table\<close>

definition DISPATCH_KEYS :: "string list" where
  "DISPATCH_KEYS =
     [''help'', ''show_countries'', ''top_countries'', ''ships_by_types'', ''search_ship'',
      ''speed_histogram'', ''draw_map'']"

definition DISPATCH_DICT ::
    "'f libs \<Rightarrow> (string \<times> (ship list \<Rightarrow> string option \<Rightarrow> ('f, unit) action)) list" where
  "DISPATCH_DICT libs =
     [(''help'', \<lambda>_ _ w. (Inr (), print_functions DISPATCH_KEYS w)),
      (''show_countries'', \<lambda>data_dict _. get_all_countries data_dict),
      (''top_countries'', \<lambda>data_dict num w.
          (case py_int num of
             Inl e \<Rightarrow> (Inl e, w)
           | Inr n \<Rightarrow> top_n_countries data_dict (Some n) w)),
      (''ships_by_types'', \<lambda>data_dict _. get_all_ship_types data_dict),
      (''search_ship'', \<lambda>data_dict _. search_ship_by_name libs data_dict),
      (''speed_histogram'', \<lambda>data_dict _. save_speed_histogram libs data_dict),
      (''draw_map'', \<lambda>data_dict _. draw_plot_map libs data_dict)]"

subsection \<open>Validation: \<^verbatim>\<open>get_valid_action\<close>\<close>

text \<open>
  \<open>dispatcher\<close> is the list of the keys of the table. The result is the pair of the
  action and the parameter, or the exception raised; the diagnostics are written to
  \<open>stdout\<close> before the exception is raised.
\<close>

definition get_valid_action :: "string list \<Rightarrow> ('f, string \<times> string option) action" where
  "get_valid_action dispatcher w =
     (case py_input [] w of
        (Inl e, w1) \<Rightarrow> (Inl e, w1)
      | (Inr line, w1) \<Rightarrow>
          (let action = strip line in
           if action = [] then (Inl (ValueError ''Empty input''), w1)
           else if CHR '' '' \<in> set action \<and> prefix ''top_countries'' action then
             (case split_maxsplit1 action of
                a0 # a1 # _ \<Rightarrow>
                  if \<not> isnumeric a1
                  then (Inl (ValueError ''Parameter is not integer''),
                        py_print (''Unknown parameter '' @ a1) w1)
                  else (Inr (a0, Some a1), w1)
              | _ \<Rightarrow> (Inl IndexError, w1))
           else if action \<notin> set dispatcher \<or> action = ''top_countries''
           then (Inl (ValueError ''Command is not in dispatcher''),
                 py_print (''Unknown command '' @ action) w1)
           else (Inr (action, None), w1)))"

subsection \<open>The loop of \<^verbatim>\<open>main\<close>\<close>

text \<open>
  One iteration: a \<^verbatim>\<open>ValueError\<close> of the validation is caught and the loop goes on;
  the handler is looked up and called outside the \<^verbatim>\<open>try\<close>. \<open>Inl\<close> is the exception
  that leaves the loop, \<open>Inr\<close> the world at the next prompt.
\<close>

definition is_ValueError :: "py_error \<Rightarrow> bool" where
  "is_ValueError e = (case e of ValueError _ \<Rightarrow> True | _ \<Rightarrow> False)"

definition loop_body :: "'f libs \<Rightarrow> ship list \<Rightarrow> 'f world \<Rightarrow> (py_error + unit) \<times> 'f world" where
  "loop_body libs all_data w =
     (case get_valid_action DISPATCH_KEYS w of
        (Inl e, w1) \<Rightarrow> if is_ValueError e then (Inr (), w1) else (Inl e, w1)
      | (Inr (action, param), w1) \<Rightarrow>
          (case map_of (DISPATCH_DICT libs) action of
             None \<Rightarrow> (Inl (KeyError action), w1)
           | Some handler \<Rightarrow> handler all_data param w1))"

text \<open>
  The loop has no exit of its own: it ends when an exception leaves it, at the latest the
  \<^verbatim>\<open>EOFError\<close> of \<^verbatim>\<open>input\<close> at the end of the input. Every other iteration reads a
  line, and no handler adds to the input, so the remaining input is a measure.
\<close>

lemma stdin_py_print [simp]: "stdin (py_print s w) = stdin w"
  by (simp add: py_print_def)

lemma stdin_print_all [simp]: "stdin (print_all ss w) = stdin w"
  by (induction ss arbitrary: w) simp_all

lemma stdin_print_iterable [simp]: "stdin (print_iterable xs w) = stdin w"
  by (simp add: print_iterable_def)

lemma stdin_print_iterable_value [simp]: "stdin (print_iterable_value xs w) = stdin w"
  by (simp add: print_iterable_value_def)

lemma stdin_print_functions [simp]: "stdin (print_functions ks w) = stdin w"
  by (simp add: print_functions_def)

lemma py_input_stdin:
  "py_input prompt w = (r, w1) \<Longrightarrow>
     (r = Inl EOFError \<and> stdin w1 = stdin w) \<or> (\<exists>line. r = Inr line \<and> stdin w = line # stdin w1)"
  by (auto simp: py_input_def Let_def split: list.splits if_splits)

lemma get_valid_action_stdin:
  "get_valid_action ks w = (r, w1) \<Longrightarrow> r = Inl EOFError \<or> length (stdin w1) < length (stdin w)"
  unfolding get_valid_action_def
  by (auto simp: Let_def split: prod.splits sum.splits list.splits if_splits dest!: py_input_stdin)

lemma handler_stdin:
  "map_of (DISPATCH_DICT libs) action = Some handler \<Longrightarrow> handler all_data param w = (r, w1) \<Longrightarrow>
     length (stdin w1) \<le> length (stdin w)"
  unfolding DISPATCH_DICT_def
  by (auto simp: get_all_countries_def top_n_countries_def get_all_ship_types_def
      search_ship_by_name_def save_speed_histogram_def draw_plot_map_def Let_def
      split: if_splits sum.splits prod.splits dest!: py_input_stdin)

lemma loop_body_stdin:
  "loop_body libs all_data w = (Inr u, w1) \<Longrightarrow> length (stdin w1) < length (stdin w)"
  unfolding loop_body_def
  by (auto simp: is_ValueError_def
      split: prod.splits sum.splits option.splits if_splits py_error.splits
      dest!: get_valid_action_stdin dest: handler_stdin)

function main_loop :: "'f libs \<Rightarrow> ship list \<Rightarrow> 'f world \<Rightarrow> py_error \<times> 'f world" where
  "main_loop libs all_data w =
     (case loop_body libs all_data w of
        (Inl e, w1) \<Rightarrow> (e, w1)
      | (Inr _, w1) \<Rightarrow> main_loop libs all_data w1)"
  by pat_completeness auto
termination
  by (relation "measure (\<lambda>(libs, all_data, w). length (stdin w))")
    (auto dest: loop_body_stdin [OF sym])

declare main_loop.simps [simp del]

text \<open>\<^verbatim>\<open>main\<close>, from the loaded data: the greeting, then the loop.\<close>

definition main :: "'f libs \<Rightarrow> ship list \<Rightarrow> 'f world \<Rightarrow> py_error \<times> 'f world" where
  "main libs all_data w =
     main_loop libs all_data
       (py_print
          (''Welcome to the Ships CLI! Enter 'help' to view available commands.'' @ [CHR 0x0A]) w)"

subsection \<open>What the search is meant to return\<close>

text \<open>The ship names of the records, in record order.\<close>

definition ship_names :: "ship list \<Rightarrow> string list" where
  "ship_names traffic_data = map (\<lambda>s. the (s SHIP_NAME_KEY)) traffic_data"

text \<open>
  All the candidates above the threshold, in the order of the ranking by score, with no
  limit on their number.
\<close>

definition above_threshold :: "'f libs \<Rightarrow> string list \<Rightarrow> string \<Rightarrow> string list" where
  "above_threshold libs names search_key =
     map fst (filter (\<lambda>p. SEARCH_ACCURACY < snd p)
       (py_sorted_reverse snd (map (\<lambda>choice. (choice, scorer libs search_key choice))
          (set_iter libs names))))"

subsection \<open>Order of two items in a list\<close>

text \<open>\<open>precedes x y xs\<close>: \<open>x\<close> occurs in \<open>xs\<close> with an occurrence of \<open>y\<close> after it.\<close>

fun precedes :: "'a \<Rightarrow> 'a \<Rightarrow> 'a list \<Rightarrow> bool" where
  "precedes x y [] = False"
| "precedes x y (a # xs) = ((a = x \<and> y \<in> set xs) \<or> precedes x y xs)"

subsection \<open>Sample data\<close>

text \<open>A fresh terminal with the given lines typed ahead.\<close>

definition start :: "string list \<Rightarrow> 'f world" where
  "start lines = \<lparr>stdin = lines, stdout = [], figure = [], files = Map.empty\<rparr>"

definition ship_of :: "string \<Rightarrow> string \<Rightarrow> ship" where
  "ship_of country name = [''COUNTRY'' \<mapsto> country, ''SHIPNAME'' \<mapsto> name]"

text \<open>Four countries with one, two, three and two ships; one ship is recorded twice.\<close>

definition fleet :: "ship list" where
  "fleet =
     [ship_of ''DE'' ''A'', ship_of ''UK'' ''B'', ship_of ''US'' ''C'', ship_of ''FR'' ''D'',
      ship_of ''US'' ''E'', ship_of ''UK'' ''F'', ship_of ''FR'' ''G'', ship_of ''US'' ''C'',
      ship_of ''US'' ''H'']"

text \<open>Six names that differ in surrounding blanks only.\<close>

definition six_names :: "string list" where
  "six_names = [''T'', '' T'', ''T '', '' T '', ''  T'', ''T  '']"

text \<open>Two ships with a position.\<close>

definition harbour :: "ship list" where
  "harbour =
     [[''SHIPNAME'' \<mapsto> ''A'', ''LAT'' \<mapsto> ''52'', ''LON'' \<mapsto> ''4''],
      [''SHIPNAME'' \<mapsto> ''B'', ''LAT'' \<mapsto> ''54'', ''LON'' \<mapsto> ''10'']]"

text \<open>
  A stand-in for the libraries: the set iterates in the order of \<open>remdups\<close>, the score
  is 100 for a candidate equal to the query up to surrounding whitespace and 0 otherwise,
  a float is read from a string of digits, and the mean is the sum over the length.
\<close>

definition sample_libs :: "real libs" where
  "sample_libs =
     \<lparr>set_iter = remdups,
      scorer = (\<lambda>query choice. if strip choice = strip query then 100 else 0),
      pfloat = (\<lambda>s. if s \<noteq> [] \<and> list_all decimal_digit s then Some (real (digits_value s))
                    else None),
      fmean = (\<lambda>xs. sum_list xs / real (length xs))\<rparr>"

section \<open>Properties of the grouping\<close>

lemma first_seen_set [simp]: "set (first_seen xs) = set xs"
  by (induction xs) auto

lemma first_seen_distinct [simp]: "distinct (first_seen xs)"
  by (induction xs) (auto simp: distinct_removeAll)

lemma first_seen_snoc:
  "first_seen (xs @ [x]) = (if x \<in> set xs then first_seen xs else first_seen xs @ [x])"
  by (induction xs) (auto simp: removeAll_append)

lemma group_of_snoc:
  "group_of (pre @ [s]) field k =
     (if s field = Some k then insert (the (s SHIP_NAME_KEY)) (group_of pre field k)
      else group_of pre field k)"
  by (simp add: group_of_def)

lemma map_of_grouping_None:
  "map_of (grouping pre field) k = None \<longleftrightarrow> k \<notin> (\<lambda>s. the (s field)) ` set pre"
  by (simp add: grouping_def map_of_eq_None_iff image_image)

lemma dict_add_map:
  "dict_add (map (\<lambda>k. (k, g k)) ks) k name =
     map (\<lambda>k'. (k', if k' = k then insert name (g k') else g k')) ks"
  by (simp add: dict_add_def)

lemma group_of_absent:
  "k \<notin> (\<lambda>s. the (s field)) ` set pre \<Longrightarrow> has_fields field pre \<Longrightarrow> group_of pre field k = {}"
  by (auto simp: group_of_def has_fields_def list_all_iff filter_empty_conv image_iff)

text \<open>One iteration takes the grouping of the records seen so far to that of one more.\<close>

lemma analyze_step_grouping:
  assumes "has_fields field pre" "s field = Some k" "s SHIP_NAME_KEY = Some name"
  shows "analyze_step field (grouping pre field) s = Inr (grouping (pre @ [s]) field)"
proof (cases "k \<in> (\<lambda>s. the (s field)) ` set pre")
  case True
  then have "map_of (grouping pre field) k \<noteq> None"
    by (simp add: map_of_grouping_None)
  moreover have "dict_add (grouping pre field) k name = grouping (pre @ [s]) field"
    using True assms by (auto simp: grouping_def dict_add_map first_seen_snoc group_of_snoc)
  ultimately show ?thesis
    using assms by (auto simp: analyze_step_def getitem_def)
next
  case False
  then have new: "map_of (grouping pre field) k = None"
    by (simp add: map_of_grouping_None)
  have "dict_add (grouping pre field @ [(k, {})]) k name = grouping (pre @ [s]) field"
    using False assms group_of_absent[OF False assms(1)]
    by (auto simp: grouping_def dict_add_def first_seen_snoc group_of_snoc)
  with new show ?thesis
    using assms by (simp add: analyze_step_def getitem_def)
qed

lemma analyze_loop_grouping:
  "has_fields field (pre @ rest) \<Longrightarrow>
   analyze_loop field (grouping pre field) rest = Inr (grouping (pre @ rest) field)"
proof (induction rest arbitrary: pre)
  case Nil
  then show ?case by simp
next
  case (Cons s rest)
  from Cons.prems obtain k name where s: "s field = Some k" "s SHIP_NAME_KEY = Some name"
    by (auto simp: has_fields_def)
  from Cons.prems have pre: "has_fields field pre"
    by (simp add: has_fields_def)
  have "has_fields field ((pre @ [s]) @ rest)"
    using Cons.prems by simp
  from Cons.IH[OF this] analyze_step_grouping[OF pre s] show ?case
    by simp
qed

lemma analyze_grouping:
  "has_fields field traffic_data \<Longrightarrow>
   analyze_loop field [] traffic_data = Inr (grouping traffic_data field)"
  using analyze_loop_grouping[of field "[]" traffic_data] by (simp add: grouping_def)

lemma analyze_unsorted:
  "has_fields field traffic_data \<Longrightarrow>
   analyze_traffic_data_by traffic_data field False = Inr (grouping traffic_data field)"
  by (simp add: analyze_traffic_data_by_def analyze_grouping)

lemma analyze_sorted:
  "has_fields field traffic_data \<Longrightarrow>
   analyze_traffic_data_by traffic_data field True =
     Inr (py_sorted_reverse (\<lambda>x. card (snd x)) (grouping traffic_data field))"
  by (simp add: analyze_traffic_data_by_def analyze_grouping)

lemma grouping_union:
  "has_fields field traffic_data \<Longrightarrow>
   \<Union> (snd ` set (grouping traffic_data field)) = (\<lambda>s. the (s SHIP_NAME_KEY)) ` set traffic_data"
  by (auto simp: grouping_def group_of_def has_fields_def list_all_iff image_iff)

lemma has_fields_fleet: "has_fields ''COUNTRY'' fleet"
  by (simp add: has_fields_def fleet_def ship_of_def SHIP_NAME_KEY_def)

lemma grouping_fleet:
  "grouping fleet ''COUNTRY'' =
     [(''DE'', {''A''}), (''UK'', {''B'', ''F''}), (''US'', {''C'', ''E'', ''H''}),
      (''FR'', {''D'', ''G''})]"
  by (simp add: grouping_def group_of_def fleet_def ship_of_def SHIP_NAME_KEY_def insert_commute)

text \<open>
  Claim C1. For a dataset whose records all have the grouping field and the ship name,
  the grouping is returned without error; its keys are the field values in the order of
  their first occurrence; every key is mapped to the set of the ship names of the records
  with that value; the union of the groups is the set of the ship names of the dataset;
  the empty dataset gives the empty mapping; and the empty string is a key like any
  other, mapped to the names of the records whose field is empty.
\<close>

theorem aggregate_first_seen_groups:
  assumes "has_fields field traffic_data"
  shows "analyze_traffic_data_by traffic_data field False = Inr (grouping traffic_data field)
     \<and> map fst (grouping traffic_data field) = first_seen (map (\<lambda>s. the (s field)) traffic_data)
     \<and> (\<forall>k g. (k, g) \<in> set (grouping traffic_data field) \<longrightarrow> g = group_of traffic_data field k)
     \<and> \<Union> (snd ` set (grouping traffic_data field)) = (\<lambda>s. the (s SHIP_NAME_KEY)) ` set traffic_data
     \<and> analyze_traffic_data_by [] field False = Inr []
     \<and> (\<forall>s \<in> set traffic_data. s field = Some [] \<longrightarrow>
           ([], group_of traffic_data field []) \<in> set (grouping traffic_data field)
           \<and> the (s SHIP_NAME_KEY) \<in> group_of traffic_data field [])"
proof -
  have "analyze_traffic_data_by traffic_data field False = Inr (grouping traffic_data field)"
    by (rule analyze_unsorted[OF assms])
  moreover have "map fst (grouping traffic_data field)
      = first_seen (map (\<lambda>s. the (s field)) traffic_data)"
    by (simp add: grouping_def comp_def)
  moreover have "\<forall>k g. (k, g) \<in> set (grouping traffic_data field) \<longrightarrow> g = group_of traffic_data field k"
    by (auto simp: grouping_def)
  moreover note grouping_union[OF assms]
  moreover have "analyze_traffic_data_by [] field False = Inr []"
    by (simp add: analyze_traffic_data_by_def)
  moreover have "\<forall>s \<in> set traffic_data. s field = Some [] \<longrightarrow>
           ([], group_of traffic_data field []) \<in> set (grouping traffic_data field)
           \<and> the (s SHIP_NAME_KEY) \<in> group_of traffic_data field []"
    by (force simp: grouping_def group_of_def image_iff)
  ultimately show ?thesis by blast
qed

theorem aggregate_first_seen_groups_witness:
  "has_fields ''COUNTRY''
     [ship_of ''US'' ''A'', ship_of '''' ''B'', ship_of ''US'' ''A'', ship_of ''US'' ''C'']
   \<and> analyze_traffic_data_by
     [ship_of ''US'' ''A'', ship_of '''' ''B'', ship_of ''US'' ''A'', ship_of ''US'' ''C'']
     ''COUNTRY'' False
     = Inr [(''US'', {''A'', ''C''}), ('''', {''B''})]"
proof -
  have h: "has_fields ''COUNTRY''
     [ship_of ''US'' ''A'', ship_of '''' ''B'', ship_of ''US'' ''A'', ship_of ''US'' ''C'']"
    by (simp add: has_fields_def ship_of_def SHIP_NAME_KEY_def)
  show ?thesis
    using h aggregate_first_seen_groups[OF h]
    by (simp add: grouping_def group_of_def ship_of_def SHIP_NAME_KEY_def insert_commute)
qed

section \<open>Properties of the ranking\<close>

lemma py_sorted_reverse_mset: "mset (py_sorted_reverse f xs) = mset xs"
  by (simp add: py_sorted_reverse_def)

lemma py_sorted_reverse_set [simp]: "set (py_sorted_reverse f xs) = set xs"
  by (simp add: py_sorted_reverse_def)

lemma py_sorted_reverse_length [simp]: "length (py_sorted_reverse f xs) = length xs"
  by (simp add: py_sorted_reverse_def)

lemma py_sorted_reverse_sorted:
  "sorted_wrt (\<lambda>a b. f b \<le> f a) (py_sorted_reverse f xs)"
proof -
  have "sorted (map f (sort_key f (rev xs)))" by simp
  then have "sorted_wrt (\<lambda>a b. f a \<le> f b) (sort_key f (rev xs))"
    by (simp add: sorted_map)
  then show ?thesis
    unfolding py_sorted_reverse_def by (simp add: sorted_wrt_rev)
qed

lemma py_sorted_reverse_stable:
  "filter (\<lambda>x. f x = k) (py_sorted_reverse f xs) = filter (\<lambda>x. f x = k) xs"
  unfolding py_sorted_reverse_def by (simp add: sort_key_stable flip: rev_filter)

lemma precedes_filter:
  "P x \<Longrightarrow> P y \<Longrightarrow> precedes x y (filter P xs) = precedes x y xs"
  by (induction xs) auto

lemma py_sorted_reverse_precedes:
  assumes "f x = f y"
  shows "precedes x y (py_sorted_reverse f xs) = precedes x y xs"
proof -
  let ?P = "\<lambda>z. f z = f y"
  have "precedes x y (py_sorted_reverse f xs) = precedes x y (filter ?P (py_sorted_reverse f xs))"
    using assms by (simp add: precedes_filter)
  also have "\<dots> = precedes x y (filter ?P xs)"
    by (simp only: py_sorted_reverse_stable)
  also have "\<dots> = precedes x y xs"
    using assms by (simp add: precedes_filter)
  finally show ?thesis .
qed

lemma fleet_dict:
  "analyze_traffic_data_by fleet ''COUNTRY'' False =
     Inr [(''DE'', {''A''}), (''UK'', {''B'', ''F''}), (''US'', {''C'', ''E'', ''H''}),
          (''FR'', {''D'', ''G''})]"
  using analyze_unsorted[OF has_fields_fleet] by (simp add: grouping_fleet)

lemma card_fleet_groups:
  "card {''A''} = 1" "card {''B'', ''F''} = 2" "card {''C'', ''E'', ''H''} = 3"
  "card {''D'', ''G''} = 2"
  by simp_all

lemma ranked_fleet:
  "py_sorted_reverse (\<lambda>x. card (snd x)) (grouping fleet ''COUNTRY'') =
     [(''US'', {''C'', ''E'', ''H''}), (''UK'', {''B'', ''F''}), (''FR'', {''D'', ''G''}),
      (''DE'', {''A''})]"
  by (simp add: grouping_fleet py_sorted_reverse_def)

text \<open>
  Claim C2. Where the grouping is returned as \<open>d\<close>, the call with \<^verbatim>\<open>is_sorted=True\<close>
  returns a rearrangement \<open>r\<close> of its items, in descending order of the size of the
  group, in which the items of any one size stand in the same order as in \<open>d\<close>; so two
  items with groups of equal size keep their relative order.
\<close>

theorem rank_stable_descending:
  assumes "analyze_traffic_data_by traffic_data by_key False = Inr d"
  shows "\<exists>r. analyze_traffic_data_by traffic_data by_key True = Inr r
      \<and> mset r = mset d
      \<and> sorted_wrt (\<lambda>a b. card (snd b) \<le> card (snd a)) r
      \<and> (\<forall>n. filter (\<lambda>p. card (snd p) = n) r = filter (\<lambda>p. card (snd p) = n) d)
      \<and> (\<forall>p q. card (snd p) = card (snd q) \<longrightarrow> precedes p q r = precedes p q d)"
proof -
  let ?r = "py_sorted_reverse (\<lambda>x. card (snd x)) d"
  from assms have "analyze_loop by_key [] traffic_data = Inr d"
    by (auto simp: analyze_traffic_data_by_def split: sum.splits)
  then have "analyze_traffic_data_by traffic_data by_key True = Inr ?r"
    by (simp add: analyze_traffic_data_by_def)
  moreover have "mset ?r = mset d"
    by (rule py_sorted_reverse_mset)
  moreover have "sorted_wrt (\<lambda>a b. card (snd b) \<le> card (snd a)) ?r"
    by (rule py_sorted_reverse_sorted)
  moreover have "\<forall>n. filter (\<lambda>p. card (snd p) = n) ?r = filter (\<lambda>p. card (snd p) = n) d"
    by (simp add: py_sorted_reverse_stable)
  moreover have "\<forall>p q. card (snd p) = card (snd q) \<longrightarrow> precedes p q ?r = precedes p q d"
    by (simp add: py_sorted_reverse_precedes)
  ultimately show ?thesis by blast
qed

theorem rank_stable_descending_witness:
  "analyze_traffic_data_by fleet ''COUNTRY'' False =
     Inr [(''DE'', {''A''}), (''UK'', {''B'', ''F''}), (''US'', {''C'', ''E'', ''H''}),
          (''FR'', {''D'', ''G''})]
   \<and> analyze_traffic_data_by fleet ''COUNTRY'' True =
     Inr [(''US'', {''C'', ''E'', ''H''}), (''UK'', {''B'', ''F''}), (''FR'', {''D'', ''G''}),
          (''DE'', {''A''})]"
proof -
  have "analyze_traffic_data_by fleet ''COUNTRY'' True =
     Inr [(''US'', {''C'', ''E'', ''H''}), (''UK'', {''B'', ''F''}), (''FR'', {''D'', ''G''}),
          (''DE'', {''A''})]"
    using rank_stable_descending[OF fleet_dict] analyze_sorted[OF has_fields_fleet]
    by (simp add: ranked_fleet)
  with fleet_dict show ?thesis by simp
qed

section \<open>Properties of the validation\<close>

text \<open>The validation of one line, once the line is read.\<close>

lemma get_valid_action_line:
  assumes "stdin w = line # rest"
  shows "get_valid_action dispatcher w =
     (let action = strip line; w1 = w\<lparr>stdin := rest\<rparr> in
      if action = [] then (Inl (ValueError ''Empty input''), w1)
      else if CHR '' '' \<in> set action \<and> prefix ''top_countries'' action then
        (case split_maxsplit1 action of
           a0 # a1 # _ \<Rightarrow>
             if \<not> isnumeric a1
             then (Inl (ValueError ''Parameter is not integer''),
                   py_print (''Unknown parameter '' @ a1) w1)
             else (Inr (a0, Some a1), w1)
         | _ \<Rightarrow> (Inl IndexError, w1))
      else if action \<notin> set dispatcher \<or> action = ''top_countries''
      then (Inl (ValueError ''Command is not in dispatcher''),
            py_print (''Unknown command '' @ action) w1)
      else (Inr (action, None), w1))"
  using assms by (simp add: get_valid_action_def py_input_def Let_def)

lemma nonspace_top_countries: "\<forall>c \<in> set ''top_countries''. \<not> isspace c"
  by (simp add: isspace_def)

lemma split_command_remainder:
  assumes "ws \<noteq> []" "list_all isspace ws" "remainder \<noteq> []" "\<not> isspace (hd remainder)"
  shows "split_maxsplit1 (''top_countries'' @ ws @ remainder) = [''top_countries'', remainder]"
proof -
  let ?tc = "''top_countries''"
  obtain c ws' where ws: "ws = c # ws'" "isspace c"
    using assms(1,2) by (cases ws) auto
  obtain r rs where rem: "remainder = r # rs" "\<not> isspace r"
    using assms(3,4) by (cases remainder) auto
  have lead: "dropWhile isspace (?tc @ ws @ remainder) = ?tc @ ws @ remainder"
    by (simp add: isspace_def)
  have word: "takeWhile (\<lambda>c. \<not> isspace c) (?tc @ ws @ remainder) = ?tc"
    using ws nonspace_top_countries by (subst takeWhile_append2) auto
  have after: "dropWhile (\<lambda>c. \<not> isspace c) (?tc @ ws @ remainder) = ws @ remainder"
    using ws nonspace_top_countries by (subst dropWhile_append2) auto
  have rest: "dropWhile isspace (ws @ remainder) = remainder"
    using assms(2) rem by (subst dropWhile_append2) (auto simp: list_all_iff)
  show ?thesis
    unfolding split_maxsplit1_def Let_def lead word after rest using assms(3) by simp
qed

lemma decimal_isnumeric:
  "remainder \<noteq> [] \<Longrightarrow> list_all decimal_digit remainder \<Longrightarrow> isnumeric remainder"
  by (auto simp: isnumeric_def numeric_char_def list_all_iff)

lemma not_a_key:
  assumes "ws \<noteq> []"
  shows "''top_countries'' @ ws @ remainder \<notin> set DISPATCH_KEYS"
  using assms by (auto simp: DISPATCH_KEYS_def)

text \<open>
  Claim C6, as amended. Let the trimmed line be \<^verbatim>\<open>top_countries\<close>, a run of
  whitespace and a remainder. If the text contains a space character and the remainder
  is made of decimal digits only, the validation succeeds with the pair of
  \<^verbatim>\<open>top_countries\<close> and the remainder. If the text contains a space character and the
  remainder has a character that is not numeric, the validation fails, the diagnostic
  \<^verbatim>\<open>Unknown parameter\<close> names the remainder, and the loop goes to the next prompt with no
  handler called. If the text contains no space character (the whitespace is tabs, say),
  the validation fails with \<^verbatim>\<open>Unknown command\<close> naming the whole text.
\<close>

theorem top_countries_argument:
  assumes "stdin w = line # rest"
    and "strip line = ''top_countries'' @ ws @ remainder"
    and "ws \<noteq> []" and "list_all isspace ws"
    and "remainder \<noteq> []" and "\<not> isspace (hd remainder)"
  shows "(CHR '' '' \<in> set (ws @ remainder) \<and> list_all decimal_digit remainder \<longrightarrow>
            get_valid_action DISPATCH_KEYS w =
              (Inr (''top_countries'', Some remainder), w\<lparr>stdin := rest\<rparr>))
       \<and> (CHR '' '' \<in> set (ws @ remainder) \<and> \<not> list_all numeric_char remainder \<longrightarrow>
            get_valid_action DISPATCH_KEYS w =
              (Inl (ValueError ''Parameter is not integer''),
               w\<lparr>stdin := rest, stdout := stdout w @ [''Unknown parameter '' @ remainder]\<rparr>)
            \<and> loop_body libs all_data w =
              (Inr (), w\<lparr>stdin := rest, stdout := stdout w @ [''Unknown parameter '' @ remainder]\<rparr>))
       \<and> (CHR '' '' \<notin> set (ws @ remainder) \<longrightarrow>
            get_valid_action DISPATCH_KEYS w =
              (Inl (ValueError ''Command is not in dispatcher''),
               w\<lparr>stdin := rest, stdout := stdout w @ [''Unknown command '' @ strip line]\<rparr>))"
proof -
  let ?tc = "''top_countries''"
  note split = split_command_remainder[OF assms(3-6)]
  have nonempty: "strip line \<noteq> []" using assms(2) by simp
  have pre: "prefix ?tc (strip line)" using assms(2) by simp
  have sp: "CHR '' '' \<in> set (strip line) \<longleftrightarrow> CHR '' '' \<in> set (ws @ remainder)"
    using assms(2) by simp
  have a: "get_valid_action DISPATCH_KEYS w = (Inr (?tc, Some remainder), w\<lparr>stdin := rest\<rparr>)"
    if "CHR '' '' \<in> set (ws @ remainder)" "list_all decimal_digit remainder"
    using that decimal_isnumeric[OF assms(5)] sp pre nonempty split
    by (simp add: get_valid_action_line[OF assms(1)] assms(2) del: set_append)
  have b: "get_valid_action DISPATCH_KEYS w =
              (Inl (ValueError ''Parameter is not integer''),
               w\<lparr>stdin := rest, stdout := stdout w @ [''Unknown parameter '' @ remainder]\<rparr>)"
    if "CHR '' '' \<in> set (ws @ remainder)" "\<not> list_all numeric_char remainder"
    using that sp pre nonempty split
    by (simp add: get_valid_action_line[OF assms(1)] assms(2) isnumeric_def py_print_def del: set_append)
  have c: "get_valid_action DISPATCH_KEYS w =
              (Inl (ValueError ''Command is not in dispatcher''),
               w\<lparr>stdin := rest, stdout := stdout w @ [''Unknown command '' @ strip line]\<rparr>)"
    if "CHR '' '' \<notin> set (ws @ remainder)"
    using that sp nonempty not_a_key[OF assms(3), of remainder]
    by (simp add: get_valid_action_line[OF assms(1)] assms(2) py_print_def del: set_append)
  from b have b': "loop_body libs all_data w =
              (Inr (), w\<lparr>stdin := rest, stdout := stdout w @ [''Unknown parameter '' @ remainder]\<rparr>)"
    if "CHR '' '' \<in> set (ws @ remainder)" "\<not> list_all numeric_char remainder"
    using that by (simp add: loop_body_def is_ValueError_def)
  from a b b' c show ?thesis by blast
qed

theorem top_countries_argument_witness:
  "strip ''  top_countries  12 '' = ''top_countries'' @ ''  '' @ ''12''
   \<and> get_valid_action DISPATCH_KEYS (start [''  top_countries  12 ''] :: real world) =
       (Inr (''top_countries'', Some ''12''), start [])
   \<and> get_valid_action DISPATCH_KEYS (start [''top_countries abc''] :: real world) =
       (Inl (ValueError ''Parameter is not integer''),
        (start [])\<lparr>stdout := [''Unknown parameter abc'']\<rparr>)"
proof -
  have s1: "strip ''  top_countries  12 '' = ''top_countries'' @ ''  '' @ ''12''"
    by (simp add: strip_def isspace_def)
  have s2: "strip ''top_countries abc'' = ''top_countries'' @ '' '' @ ''abc''"
    by (simp add: strip_def isspace_def)
  have "get_valid_action DISPATCH_KEYS (start [''  top_countries  12 ''] :: real world) =
       (Inr (''top_countries'', Some ''12''), start [])"
    using top_countries_argument[where w = "start [''  top_countries  12 ''] :: real world"
        and line = "''  top_countries  12 ''" and rest = "[]" and ws = "''  ''"
        and remainder = "''12''", OF _ s1]
    by (simp add: start_def isspace_def decimal_digit_def)
  moreover have "get_valid_action DISPATCH_KEYS (start [''top_countries abc''] :: real world) =
       (Inl (ValueError ''Parameter is not integer''),
        (start [])\<lparr>stdout := [''Unknown parameter abc'']\<rparr>)"
    using top_countries_argument[where w = "start [''top_countries abc''] :: real world"
        and line = "''top_countries abc''" and rest = "[]" and ws = "'' ''"
        and remainder = "''abc''", OF _ s2]
    by (simp add: start_def isspace_def numeric_char_def decimal_digit_def)
  ultimately show ?thesis using s1 by blast
qed

text \<open>
  Claim C6 as stated fails where the whitespace after the command is a tab: the
  remainder \<^verbatim>\<open>5\<close> is made of decimal digits, and the line is rejected as an unknown
  command.
\<close>

theorem tab_separated_argument_counterexample:
  "strip (''top_countries'' @ [CHR 0x09] @ ''5'') = ''top_countries'' @ [CHR 0x09] @ ''5''
   \<and> isspace (CHR 0x09) \<and> list_all decimal_digit ''5''
   \<and> get_valid_action DISPATCH_KEYS (start [''top_countries'' @ [CHR 0x09] @ ''5''] :: real world) =
       (Inl (ValueError ''Command is not in dispatcher''),
        (start [])\<lparr>stdout := [''Unknown command top_countries'' @ [CHR 0x09] @ ''5'']\<rparr>)"
  by (simp add: get_valid_action_def py_input_def py_print_def start_def strip_def isspace_def
      decimal_digit_def DISPATCH_KEYS_def)

text \<open>
  The last branch of the validation. A line whose trimmed text is not empty, is not
  taken by the argument branch (it does not both contain a space and start with
  \<^verbatim>\<open>top_countries\<close>) and is \<^verbatim>\<open>top_countries\<close> itself or no key of the dispatch table,
  fails with the diagnostic \<^verbatim>\<open>Unknown command\<close> naming the text; the loop goes to the
  next prompt and no handler runs.
\<close>

lemma last_branch_rejects:
  assumes "stdin w = line # rest"
    and "strip line \<noteq> []"
    and "\<not> (CHR '' '' \<in> set (strip line) \<and> prefix ''top_countries'' (strip line))"
    and "strip line = ''top_countries'' \<or> strip line \<notin> set DISPATCH_KEYS"
  shows "get_valid_action DISPATCH_KEYS w =
           (Inl (ValueError ''Command is not in dispatcher''),
            w\<lparr>stdin := rest, stdout := stdout w @ [''Unknown command '' @ strip line]\<rparr>)
       \<and> loop_body libs all_data w =
           (Inr (), w\<lparr>stdin := rest, stdout := stdout w @ [''Unknown command '' @ strip line]\<rparr>)"
proof -
  have "get_valid_action DISPATCH_KEYS w =
           (Inl (ValueError ''Command is not in dispatcher''),
            w\<lparr>stdin := rest, stdout := stdout w @ [''Unknown command '' @ strip line]\<rparr>)"
    using assms(2-4) by (auto simp: get_valid_action_line[OF assms(1)] py_print_def Let_def)
  then show ?thesis
    by (simp add: loop_body_def is_ValueError_def)
qed

text \<open>So \<^verbatim>\<open>top_countries\<close> alone is an unknown command and does not run with the default count.\<close>

lemma top_countries_alone_rejected:
  "get_valid_action DISPATCH_KEYS (start ['' top_countries  '', ''help''] :: real world) =
       (Inl (ValueError ''Command is not in dispatcher''),
        (start [''help''])\<lparr>stdout := [''Unknown command top_countries'']\<rparr>)
   \<and> loop_body sample_libs [] (start ['' top_countries  '', ''help'']) =
       (Inr (), (start [''help''])\<lparr>stdout := [''Unknown command top_countries'']\<rparr>)"
proof -
  have s: "strip '' top_countries  '' = ''top_countries''"
    by (simp add: strip_def isspace_def)
  show ?thesis
    using s last_branch_rejects[where w = "start ['' top_countries  '', ''help''] :: real world"
        and line = "'' top_countries  ''" and rest = "[''help'']"
        and libs = sample_libs and all_data = "[]"]
    by (simp add: start_def)
qed

text \<open>
  Claim C5 does not hold of the code. The text \<^verbatim>\<open>top_countriesX 5\<close> is not
  \<^verbatim>\<open>top_countries\<close> followed by whitespace, and neither the text nor its first word
  \<^verbatim>\<open>top_countriesX\<close> is a key of the dispatch table, so the claim has it rejected as an
  unknown command. The argument branch tests only that the text starts with
  \<^verbatim>\<open>top_countries\<close> and contains a space, and takes it: the validation succeeds with
  the command \<^verbatim>\<open>top_countriesX\<close>, and \<^verbatim>\<open>top_countriesX abc\<close> fails with the diagnostic
  \<^verbatim>\<open>Unknown parameter\<close> instead of \<^verbatim>\<open>Unknown command\<close>.
\<close>

theorem unregistered_command_passes_validation:
  "strip ''top_countriesX 5'' = ''top_countriesX 5''
   \<and> ''top_countriesX 5'' \<notin> set DISPATCH_KEYS
   \<and> ''top_countriesX'' \<notin> set DISPATCH_KEYS
   \<and> \<not> isspace (''top_countriesX 5'' ! length ''top_countries'')
   \<and> get_valid_action DISPATCH_KEYS (start [''top_countriesX 5''] :: real world) =
       (Inr (''top_countriesX'', Some ''5''), start [])
   \<and> get_valid_action DISPATCH_KEYS (start [''top_countriesX abc''] :: real world) =
       (Inl (ValueError ''Parameter is not integer''),
        (start [])\<lparr>stdout := [''Unknown parameter abc'']\<rparr>)"
  by (simp add: get_valid_action_def py_input_def py_print_def start_def strip_def isspace_def
      split_maxsplit1_def isnumeric_def numeric_char_def decimal_digit_def DISPATCH_KEYS_def)

theorem unregistered_command_passes_validation_witness:
  "fst (get_valid_action DISPATCH_KEYS (start [''top_countriesX 5''] :: real world)) =
     Inr (''top_countriesX'', Some ''5'')
   \<and> stdout (snd (get_valid_action DISPATCH_KEYS (start [''top_countriesX abc''] :: real world))) =
     [''Unknown parameter abc'']"
  using unregistered_command_passes_validation by (simp add: start_def)

text \<open>
  Claim C4 does not hold of the code. The line \<^verbatim>\<open>top_countriesX 5\<close> passes the validation
  as the command \<^verbatim>\<open>top_countriesX\<close>, and the lookup in the dispatch table, outside the
  \<^verbatim>\<open>try\<close>, raises \<^verbatim>\<open>KeyError\<close>; the line \<^verbatim>\<open>top_countries\<close> with the argument
  superscript two passes \<^verbatim>\<open>isnumeric\<close>, and \<^verbatim>\<open>int\<close> raises \<^verbatim>\<open>ValueError\<close> in the handler.
  Both exceptions end \<^verbatim>\<open>main\<close> with the next line unread, whatever the data.
\<close>

theorem malformed_command_escapes_loop:
  "main libs all_data (start [''top_countriesX 5'', ''help'']) =
     (KeyError ''top_countriesX'',
      (start [''help''])\<lparr>stdout :=
         [''Welcome to the Ships CLI! Enter 'help' to view available commands.'' @ [CHR 0x0A]]\<rparr>)
   \<and> main libs all_data (start [''top_countries '' @ [CHR 0xB2], ''help'']) =
     (ValueError ''invalid literal for int() with base 10'',
      (start [''help''])\<lparr>stdout :=
         [''Welcome to the Ships CLI! Enter 'help' to view available commands.'' @ [CHR 0x0A]]\<rparr>)"
  by (simp add: main_def start_def main_loop.simps loop_body_def get_valid_action_def py_input_def
    py_print_def strip_def isspace_def split_maxsplit1_def isnumeric_def numeric_char_def
    decimal_digit_def DISPATCH_KEYS_def DISPATCH_DICT_def is_ValueError_def py_int_def)

section \<open>Properties of the handlers\<close>

lemma print_all_stdout: "print_all ss w = w\<lparr>stdout := stdout w @ ss\<rparr>"
  by (induction ss arbitrary: w) (simp_all add: py_print_def)

lemma print_iterable_stdout: "print_iterable xs w = w\<lparr>stdout := stdout w @ xs @ [[]]\<rparr>"
  by (simp add: print_iterable_def print_all_stdout py_print_def)

lemma print_iterable_value_stdout:
  "print_iterable_value xs w =
     w\<lparr>stdout := stdout w @ map (\<lambda>(k, g). k @ '': '' @ str_nat (card g)) xs @ [[]]\<rparr>"
  by (simp add: print_iterable_value_def print_all_stdout py_print_def key_count_line_def
      case_prod_unfold)

lemma length_grouping:
  "length (grouping traffic_data field) = card ((\<lambda>s. the (s field)) ` set traffic_data)"
  using distinct_card[OF first_seen_distinct, of "map (\<lambda>s. the (s field)) traffic_data"]
  by (simp add: grouping_def)

lemma has_fields_mset:
  "mset other = mset traffic_data \<Longrightarrow> has_fields field other = has_fields field traffic_data"
  by (auto simp: has_fields_def list_all_iff dest: mset_eq_setD)

lemma sorted_keys_unique:
  assumes "set xs = set ys"
  shows "sort (first_seen xs) = sort (first_seen ys)"
  by (rule sorted_distinct_set_unique) (simp_all add: assms)

text \<open>
  Claim C8. For a dataset whose records have the country and the ship name,
  \<^verbatim>\<open>show_countries\<close> prints the countries of the dataset, each once, in ascending order of
  the strings (the lexicographic order of the code points, which is Python's), one per
  \<^verbatim>\<open>print\<close>, then an empty line; any rearrangement of the records prints the same.
\<close>

theorem show_countries_sorted:
  assumes "has_fields COUNTRY_KEY traffic_data"
  shows "\<exists>names.
       get_all_countries traffic_data w = (Inr (), w\<lparr>stdout := stdout w @ names @ [[]]\<rparr>)
     \<and> sorted names \<and> distinct names
     \<and> set names = (\<lambda>s. the (s COUNTRY_KEY)) ` set traffic_data
     \<and> (\<forall>other. mset other = mset traffic_data \<longrightarrow>
           get_all_countries other w = get_all_countries traffic_data w)"
proof -
  let ?keys = "\<lambda>d. map (\<lambda>s. the (s COUNTRY_KEY)) d"
  let ?names = "sort (first_seen (?keys traffic_data))"
  have run: "get_all_countries d w = (Inr (), w\<lparr>stdout := stdout w @ sort (first_seen (?keys d)) @ [[]]\<rparr>)"
    if "has_fields COUNTRY_KEY d" for d
    using that
    by (simp add: get_all_countries_def analyze_unsorted print_iterable_stdout grouping_def comp_def)
  have "get_all_countries other w = get_all_countries traffic_data w"
    if "mset other = mset traffic_data" for other
  proof -
    have "has_fields COUNTRY_KEY other"
      using assms has_fields_mset[OF that] by simp
    moreover have "set (?keys other) = set (?keys traffic_data)"
      using mset_eq_setD[OF that] by simp
    ultimately show ?thesis
      using run[of other] run[OF assms] sorted_keys_unique by metis
  qed
  moreover have "sorted ?names" "distinct ?names"
    "set ?names = (\<lambda>s. the (s COUNTRY_KEY)) ` set traffic_data"
    by simp_all
  ultimately show ?thesis
    using run[OF assms] by blast
qed

theorem show_countries_sorted_witness:
  "has_fields COUNTRY_KEY [ship_of ''Zeta'' ''A'', ship_of ''Alpha'' ''B'', ship_of ''Mu'' ''C'',
       ship_of ''Alpha'' ''D'']
   \<and> get_all_countries [ship_of ''Zeta'' ''A'', ship_of ''Alpha'' ''B'', ship_of ''Mu'' ''C'',
       ship_of ''Alpha'' ''D''] (start [] :: real world) =
     (Inr (), (start [])\<lparr>stdout := [''Alpha'', ''Mu'', ''Zeta'', '''']\<rparr>)"
proof -
  have h: "has_fields COUNTRY_KEY [ship_of ''Zeta'' ''A'', ship_of ''Alpha'' ''B'',
       ship_of ''Mu'' ''C'', ship_of ''Alpha'' ''D'']"
    by (simp add: has_fields_def ship_of_def SHIP_NAME_KEY_def COUNTRY_KEY_def)
  show ?thesis
    using h show_countries_sorted[OF h, of "start [] :: real world"]
    by (simp add: get_all_countries_def analyze_unsorted print_iterable_stdout grouping_def
        ship_of_def COUNTRY_KEY_def start_def)
qed

text \<open>
  Claim C7. For a dataset whose records have the country and the ship name and a positive
  \<open>n\<close>, \<^verbatim>\<open>top_countries\<close> prints the first \<open>min n c\<close> items of the ranked grouping, \<open>c\<close>
  the number of distinct countries, each as the country, a colon, a space and the number
  of distinct ship names of that country, then an empty line. The ranked grouping is the
  grouping in descending order of that number, countries of equal number in the order
  of their first occurrence. A call without the count prints as the call with 5.
\<close>

theorem top_countries_ranked_prefix:
  assumes "has_fields COUNTRY_KEY traffic_data" and "0 < n"
  shows "\<exists>ranked.
       mset ranked = mset (grouping traffic_data COUNTRY_KEY)
     \<and> sorted_wrt (\<lambda>a b. card (snd b) \<le> card (snd a)) ranked
     \<and> (\<forall>p q. card (snd p) = card (snd q) \<longrightarrow>
           precedes p q ranked = precedes p q (grouping traffic_data COUNTRY_KEY))
     \<and> (\<forall>(k, g) \<in> set ranked. g = group_of traffic_data COUNTRY_KEY k)
     \<and> top_n_countries traffic_data (Some n) w =
         (Inr (), w\<lparr>stdout := stdout w @
            map (\<lambda>(k, g). k @ '': '' @ str_nat (card g))
              (take (min (nat n) (card ((\<lambda>s. the (s COUNTRY_KEY)) ` set traffic_data))) ranked)
            @ [[]]\<rparr>)
     \<and> top_n_countries traffic_data None w = top_n_countries traffic_data (Some 5) w"
proof -
  let ?d = "grouping traffic_data COUNTRY_KEY"
  let ?r = "py_sorted_reverse (\<lambda>x. card (snd x)) ?d"
  have len: "length ?r = card ((\<lambda>s. the (s COUNTRY_KEY)) ` set traffic_data)"
    by (simp add: length_grouping)
  have "take (min (nat n) (length ?r)) ?r = take (nat n) ?r"
    by (simp add: min_def)
  then have "top_n_countries traffic_data (Some n) w =
         (Inr (), w\<lparr>stdout := stdout w @
            map (\<lambda>(k, g). k @ '': '' @ str_nat (card g))
              (take (min (nat n) (card ((\<lambda>s. the (s COUNTRY_KEY)) ` set traffic_data))) ?r)
            @ [[]]\<rparr>)"
    using assms unfolding len[symmetric]
    by (simp add: top_n_countries_def analyze_sorted slice_upto_def print_iterable_value_stdout)
  moreover have "mset ?r = mset ?d"
    by (rule py_sorted_reverse_mset)
  moreover have "sorted_wrt (\<lambda>a b. card (snd b) \<le> card (snd a)) ?r"
    by (rule py_sorted_reverse_sorted)
  moreover have "\<forall>p q. card (snd p) = card (snd q) \<longrightarrow> precedes p q ?r = precedes p q ?d"
    by (simp add: py_sorted_reverse_precedes)
  moreover have "\<forall>(k, g) \<in> set ?r. g = group_of traffic_data COUNTRY_KEY k"
    by (auto simp: grouping_def)
  moreover have "top_n_countries traffic_data None w = top_n_countries traffic_data (Some 5) w"
    by (simp add: top_n_countries_def)
  ultimately show ?thesis by blast
qed

theorem top_countries_ranked_prefix_witness:
  "has_fields COUNTRY_KEY fleet \<and> (0::int) < 3
   \<and> top_n_countries fleet (Some 3) (start [] :: real world) =
       (Inr (), (start [])\<lparr>stdout := [''US: 3'', ''UK: 2'', ''FR: 2'', '''']\<rparr>)"
proof -
  have h: "has_fields COUNTRY_KEY fleet"
    using has_fields_fleet by (simp add: COUNTRY_KEY_def)
  have r: "analyze_traffic_data_by fleet COUNTRY_KEY True =
      Inr [(''US'', {''C'', ''E'', ''H''}), (''UK'', {''B'', ''F''}), (''FR'', {''D'', ''G''}),
           (''DE'', {''A''})]"
    using analyze_sorted[OF h] ranked_fleet by (simp add: COUNTRY_KEY_def)
  have "top_n_countries fleet (Some 3) (start [] :: real world) =
       (Inr (), (start [])\<lparr>stdout := [''US: 3'', ''UK: 2'', ''FR: 2'', '''']\<rparr>)"
    using top_countries_ranked_prefix[OF h, of 3 "start [] :: real world"]
    by (simp add: top_n_countries_def r slice_upto_def print_iterable_value_stdout start_def
        str_nat.simps)
  with h show ?thesis by simp
qed

section \<open>Properties of the search\<close>

text \<open>
  In a list in descending order of the score, the items above a threshold are a prefix,
  so keeping them commutes with \<open>take\<close>.
\<close>

lemma filter_above_take:
  "sorted_wrt (\<lambda>a b. f b \<le> f a) xs \<Longrightarrow>
   filter (\<lambda>x. (t::nat) < f x) (take n xs) = take n (filter (\<lambda>x. t < f x) xs)"
proof (induction xs arbitrary: n)
  case Nil
  then show ?case by simp
next
  case (Cons x xs)
  show ?case
  proof (cases n)
    case 0
    then show ?thesis by simp
  next
    case (Suc m)
    show ?thesis
    proof (cases "t < f x")
      case True
      with Cons Suc show ?thesis by simp
    next
      case False
      with Cons.prems have "\<forall>y \<in> set xs. \<not> t < f y" by fastforce
      then have "filter (\<lambda>x. t < f x) xs = []" "filter (\<lambda>x. t < f x) (take m xs) = []"
        by (auto simp: filter_empty_conv dest: in_set_takeD)
      with False Suc show ?thesis by simp
    qed
  qed
qed

lemma search_results_take:
  "search_results libs names search_key = take 5 (above_threshold libs names search_key)"
  by (simp add: search_results_def process_extract_def extract_default_limit_def
      above_threshold_def case_prod_unfold filter_above_take py_sorted_reverse_sorted take_map)

lemma map_fst_scored: "map fst (map (\<lambda>c. (c, h c)) xs) = xs"
  by (induction xs) simp_all

lemma filter_scored:
  "filter (\<lambda>p. t < snd p) (map (\<lambda>c. (c, h c)) xs) = map (\<lambda>c. (c, h c)) (filter (\<lambda>c. t < h c) xs)"
  by (induction xs) simp_all

lemma above_threshold_mset:
  "mset (above_threshold libs names search_key) =
     mset (filter (\<lambda>c. SEARCH_ACCURACY < scorer libs search_key c) (set_iter libs names))"
proof -
  let ?g = "\<lambda>choice. (choice, scorer libs search_key choice)"
  let ?P = "\<lambda>p. SEARCH_ACCURACY < snd p"
  let ?ranked = "py_sorted_reverse snd (map ?g (set_iter libs names))"
  have "mset (filter ?P ?ranked) = mset (filter ?P (map ?g (set_iter libs names)))"
    by (simp only: mset_filter py_sorted_reverse_mset)
  then have "mset (map fst (filter ?P ?ranked))
      = mset (map fst (filter ?P (map ?g (set_iter libs names))))"
    by (simp only: mset_map)
  then show ?thesis
    by (simp only: above_threshold_def filter_scored map_fst_scored)
qed

lemma above_threshold_sorted:
  "sorted_wrt (\<lambda>a b. scorer libs search_key b \<le> scorer libs search_key a)
     (above_threshold libs names search_key)"
proof -
  let ?g = "\<lambda>choice. (choice, scorer libs search_key choice)"
  let ?ranked = "py_sorted_reverse snd (map ?g (set_iter libs names))"
  have "sorted_wrt (\<lambda>a b. snd b \<le> snd a) ?ranked"
    by (rule py_sorted_reverse_sorted)
  moreover have "\<forall>p \<in> set ?ranked. snd p = scorer libs search_key (fst p)"
    by auto
  ultimately have "sorted_wrt (\<lambda>a b. scorer libs search_key (fst b) \<le> scorer libs search_key (fst a))
      ?ranked"
    by (auto intro: sorted_wrt_mono_rel[rotated])
  then show ?thesis
    by (simp add: above_threshold_def sorted_wrt_map sorted_wrt_filter)
qed

lemma above_threshold_set:
  assumes "set_iter_ok (set_iter libs)"
  shows "distinct (above_threshold libs names search_key)"
    and "set (above_threshold libs names search_key) =
           {c \<in> set names. SEARCH_ACCURACY < scorer libs search_key c}"
    and "length (above_threshold libs names search_key) =
           card {c \<in> set names. SEARCH_ACCURACY < scorer libs search_key c}"
proof -
  let ?cands = "filter (\<lambda>c. SEARCH_ACCURACY < scorer libs search_key c) (set_iter libs names)"
  from assms have ok: "set (set_iter libs names) = set names" "distinct (set_iter libs names)"
    by (simp_all add: set_iter_ok_def)
  have d: "distinct ?cands" using ok by simp
  show 1: "distinct (above_threshold libs names search_key)"
    using d mset_eq_imp_distinct_iff[OF above_threshold_mset] by blast
  show 2: "set (above_threshold libs names search_key) =
           {c \<in> set names. SEARCH_ACCURACY < scorer libs search_key c}"
    using mset_eq_setD[OF above_threshold_mset, of libs names search_key] ok by auto
  show "length (above_threshold libs names search_key) =
           card {c \<in> set names. SEARCH_ACCURACY < scorer libs search_key c}"
    using distinct_card[OF 1] 2 by simp
qed

lemma names_comprehension:
  "list_all (\<lambda>s. s SHIP_NAME_KEY \<noteq> None) traffic_data \<Longrightarrow>
   comprehension (\<lambda>ship. getitem ship SHIP_NAME_KEY) traffic_data =
     Inr (map (\<lambda>s. the (s SHIP_NAME_KEY)) traffic_data)"
  by (induction traffic_data) (auto simp: getitem_def)

text \<open>
  Claim C3, as amended. Let every record have a ship name, let the set of names iterate
  each name once, and let the query be the next input line. Then the search returns the
  candidates whose ratio is strictly greater than the threshold of 85, in descending
  order of the ratio, but only the first five of them; all of them where at most five
  are above the threshold; and none exactly where no candidate is above it, in which case
  the handler prints \<^verbatim>\<open>No results found\<close> and returns without error. Otherwise it
  prints the question and the names returned.
\<close>

theorem search_above_threshold_first_five:
  assumes "set_iter_ok (set_iter libs)"
    and "list_all (\<lambda>s. s SHIP_NAME_KEY \<noteq> None) traffic_data"
    and "stdin w = query # rest"
  shows "(\<exists>above.
            distinct above
          \<and> set above = {c \<in> set (ship_names traffic_data). SEARCH_ACCURACY < scorer libs query c}
          \<and> sorted_wrt (\<lambda>a b. scorer libs query b \<le> scorer libs query a) above
          \<and> search_results libs (ship_names traffic_data) query = take 5 above)
     \<and> (card {c \<in> set (ship_names traffic_data). SEARCH_ACCURACY < scorer libs query c} \<le> 5 \<longrightarrow>
          set (search_results libs (ship_names traffic_data) query) =
            {c \<in> set (ship_names traffic_data). SEARCH_ACCURACY < scorer libs query c})
     \<and> (search_results libs (ship_names traffic_data) query = [] \<longleftrightarrow>
          {c \<in> set (ship_names traffic_data). SEARCH_ACCURACY < scorer libs query c} = {})
     \<and> search_ship_by_name libs traffic_data w =
         (Inr (), w\<lparr>stdin := rest, stdout := stdout w @
            (if search_results libs (ship_names traffic_data) query = []
             then [''Enter the search query: '', ''No results found'']
             else [''Enter the search query: '', ''Did you mean any of these?'']
                  @ search_results libs (ship_names traffic_data) query @ [[]])\<rparr>)"
proof -
  let ?names = "ship_names traffic_data"
  let ?above = "above_threshold libs ?names query"
  let ?results = "search_results libs ?names query"
  let ?S = "{c \<in> set ?names. SEARCH_ACCURACY < scorer libs query c}"
  note facts = above_threshold_set[OF assms(1), of ?names query]
  have res: "?results = take 5 ?above"
    by (rule search_results_take)
  have first: "\<exists>above. distinct above \<and> set above = ?S
      \<and> sorted_wrt (\<lambda>a b. scorer libs query b \<le> scorer libs query a) above
      \<and> ?results = take 5 above"
    using facts(1,2) above_threshold_sorted[of libs query ?names] res by blast
  have all: "set ?results = ?S" if "card ?S \<le> 5"
    using that facts by (simp add: res)
  have none: "?results = [] \<longleftrightarrow> ?S = {}"
  proof -
    have "?results = [] \<longleftrightarrow> ?above = []" by (simp add: res)
    also have "\<dots> \<longleftrightarrow> set ?above = {}" by simp
    finally show ?thesis by (simp only: facts(2))
  qed
  have run: "search_ship_by_name libs traffic_data w =
         (Inr (), w\<lparr>stdin := rest, stdout := stdout w @
            (if ?results = [] then [''Enter the search query: '', ''No results found'']
             else [''Enter the search query: '', ''Did you mean any of these?''] @ ?results @ [[]])\<rparr>)"
    using assms(3)
    by (simp add: search_ship_by_name_def names_comprehension[OF assms(2)] py_input_def
        py_print_def print_iterable_stdout Let_def ship_names_def)
  from first all none run show ?thesis
    by (intro conjI impI)
qed

text \<open>
  Claim C9. The search returns at most five names, whatever the names, the query and the
  scores; where more than five distinct candidates are above the threshold it returns
  exactly five.
\<close>

theorem search_returns_at_most_five:
  "length (search_results libs names query) \<le> 5
   \<and> (set_iter_ok (set_iter libs)
        \<and> 5 < card {c \<in> set names. SEARCH_ACCURACY < scorer libs query c}
      \<longrightarrow> length (search_results libs names query) = 5)"
proof -
  have "length (search_results libs names query) \<le> 5"
    by (simp add: search_results_take)
  moreover have "length (search_results libs names query) = 5"
    if "set_iter_ok (set_iter libs)"
      "5 < card {c \<in> set names. SEARCH_ACCURACY < scorer libs query c}"
    using that(2) above_threshold_set(3)[OF that(1), of names query]
    by (simp add: search_results_take)
  ultimately show ?thesis by blast
qed

lemma set_iter_ok_sample: "set_iter_ok (set_iter sample_libs)"
  by (simp add: set_iter_ok_def sample_libs_def)

lemma six_names_scores:
  "list_all (\<lambda>c. SEARCH_ACCURACY < scorer sample_libs ''T'' c) six_names"
  by (simp add: six_names_def sample_libs_def SEARCH_ACCURACY_def strip_def isspace_def)

lemma six_names_results:
  "search_results sample_libs six_names ''T'' = [''T'', '' T'', ''T '', '' T '', ''  T'']"
  by (simp add: search_results_def process_extract_def extract_default_limit_def
      py_sorted_reverse_def six_names_def sample_libs_def SEARCH_ACCURACY_def strip_def isspace_def)

text \<open>
  Claim C3 as stated fails where six candidates are above the threshold: the sixth is
  not returned.
\<close>

theorem search_exactly_above_threshold_counterexample:
  "distinct six_names
   \<and> list_all (\<lambda>c. SEARCH_ACCURACY < scorer sample_libs ''T'' c) six_names
   \<and> ''T  '' \<in> set six_names
   \<and> ''T  '' \<notin> set (search_results sample_libs six_names ''T'')"
  using six_names_scores by (simp add: six_names_results) (simp add: six_names_def)

theorem search_returns_at_most_five_witness:
  "set_iter_ok (set_iter sample_libs)
   \<and> 5 < card {c \<in> set six_names. SEARCH_ACCURACY < scorer sample_libs ''T'' c}
   \<and> length (search_results sample_libs six_names ''T'') = 5"
proof -
  have "{c \<in> set six_names. SEARCH_ACCURACY < scorer sample_libs ''T'' c} = set six_names"
    using six_names_scores by (auto simp: list_all_iff)
  moreover have "card (set six_names) = 6"
    by (simp add: six_names_def)
  ultimately have c: "5 < card {c \<in> set six_names. SEARCH_ACCURACY < scorer sample_libs ''T'' c}"
    by simp
  with set_iter_ok_sample search_returns_at_most_five[of sample_libs six_names "''T''"]
  show ?thesis by blast
qed

theorem search_above_threshold_first_five_witness:
  "set_iter_ok (set_iter sample_libs)
   \<and> list_all (\<lambda>s. s SHIP_NAME_KEY \<noteq> None) fleet
   \<and> search_ship_by_name sample_libs fleet (start [''C '', ''help'']) =
       (Inr (), (start [''help''])\<lparr>stdout :=
          [''Enter the search query: '', ''Did you mean any of these?'', ''C'', '''']\<rparr>)
   \<and> search_ship_by_name sample_libs fleet (start [''Z'']) =
       (Inr (), (start [])\<lparr>stdout := [''Enter the search query: '', ''No results found'']\<rparr>)"
proof -
  have h: "list_all (\<lambda>s. s SHIP_NAME_KEY \<noteq> None) fleet"
    by (simp add: fleet_def ship_of_def SHIP_NAME_KEY_def)
  have names: "ship_names fleet =
      [''A'', ''B'', ''C'', ''D'', ''E'', ''F'', ''G'', ''C'', ''H'']"
    by (simp add: ship_names_def fleet_def ship_of_def SHIP_NAME_KEY_def)
  have r1: "search_results sample_libs [''A'', ''B'', ''C'', ''D'', ''E'', ''F'', ''G'', ''C'', ''H'']
      ''C '' = [''C'']"
    by (simp add: search_results_def process_extract_def extract_default_limit_def
      py_sorted_reverse_def sample_libs_def SEARCH_ACCURACY_def strip_def isspace_def)
  have r2: "search_results sample_libs [''A'', ''B'', ''C'', ''D'', ''E'', ''F'', ''G'', ''C'', ''H'']
      ''Z'' = []"
    by (simp add: search_results_def process_extract_def extract_default_limit_def
      py_sorted_reverse_def sample_libs_def SEARCH_ACCURACY_def strip_def isspace_def)
  have e1: "stdin (start [''C '', ''help''] :: real world) = ''C '' # [''help'']"
    by (simp add: start_def)
  have e2: "stdin (start [''Z''] :: real world) = ''Z'' # []"
    by (simp add: start_def)
  have "search_ship_by_name sample_libs fleet (start [''C '', ''help'']) =
       (Inr (), (start [''help''])\<lparr>stdout :=
          [''Enter the search query: '', ''Did you mean any of these?'', ''C'', []]\<rparr>)"
    using conjunct2[OF conjunct2[OF conjunct2[OF
          search_above_threshold_first_five[OF set_iter_ok_sample h e1]]]]
    by (simp add: names r1 start_def)
  moreover have "search_ship_by_name sample_libs fleet (start [''Z'']) =
       (Inr (), (start [])\<lparr>stdout := [''Enter the search query: '', ''No results found'']\<rparr>)"
    using conjunct2[OF conjunct2[OF conjunct2[OF
          search_above_threshold_first_five[OF set_iter_ok_sample h e2]]]]
    by (simp add: names r2 start_def)
  ultimately show ?thesis
    using set_iter_ok_sample h by (intro conjI)
qed

section \<open>Properties of the map\<close>

lemma comprehension_length:
  "comprehension f xs = Inr ys \<Longrightarrow> length ys = length xs"
  by (induction xs arbitrary: ys) (auto split: sum.splits)

lemma mean_of_empty:
  "mean_of libs key [] = Inl (StatisticsError ''mean requires at least one data point'')"
  by (simp add: mean_of_def statistics_mean_def)

text \<open>
  Claim C10. On the empty dataset \<^verbatim>\<open>draw_map\<close> fails in \<^verbatim>\<open>statistics.mean\<close>, with nothing
  written; so wherever it returns and saves \<^verbatim>\<open>ship_map.html\<close>, with one marker for each
  record, the dataset is not empty.
\<close>

theorem draw_map_needs_data:
  "draw_plot_map libs [] w =
     (Inl (StatisticsError ''mean requires at least one data point''), w)
   \<and> (\<forall>traffic_data w'. draw_plot_map libs traffic_data w = (Inr (), w') \<longrightarrow>
         traffic_data \<noteq> []
         \<and> (\<exists>centre markers. w' = w\<lparr>files := (files w)(''ship_map.html'' \<mapsto> ShipMapHtml centre markers)\<rparr>
              \<and> length markers = length traffic_data))"
proof -
  have "draw_plot_map libs [] w =
     (Inl (StatisticsError ''mean requires at least one data point''), w)"
    by (simp add: draw_plot_map_def mean_of_empty)
  moreover have "traffic_data \<noteq> []
         \<and> (\<exists>centre markers. w' = w\<lparr>files := (files w)(''ship_map.html'' \<mapsto> ShipMapHtml centre markers)\<rparr>
              \<and> length markers = length traffic_data)"
    if "draw_plot_map libs traffic_data w = (Inr (), w')" for traffic_data w'
  proof
    show "traffic_data \<noteq> []"
      using that calculation by auto
    show "\<exists>centre markers. w' = w\<lparr>files := (files w)(''ship_map.html'' \<mapsto> ShipMapHtml centre markers)\<rparr>
              \<and> length markers = length traffic_data"
      using that
      by (auto simp: draw_plot_map_def split: sum.splits dest: comprehension_length)
  qed
  ultimately show ?thesis by blast
qed

theorem draw_map_needs_data_witness:
  "draw_plot_map sample_libs harbour (start []) =
     (Inr (), (start [])\<lparr>files :=
        [''ship_map.html'' \<mapsto> ShipMapHtml (53, 7) [(''A'', 52, 4), (''B'', 54, 10)]]\<rparr>)
   \<and> harbour \<noteq> []"
proof -
  have run: "draw_plot_map sample_libs harbour (start []) =
     (Inr (), (start [])\<lparr>files :=
        [''ship_map.html'' \<mapsto> ShipMapHtml (53, 7) [(''A'', 52, 4), (''B'', 54, 10)]]\<rparr>)"
    by (simp add: draw_plot_map_def ship_location_def mean_of_def statistics_mean_def
        getfloat_def getitem_def harbour_def sample_libs_def start_def decimal_digit_def
        digits_value_def digit_value_def SHIP_NAME_KEY_def LATITUDE_KEY_def LONGITUDE_KEY_def)
  with draw_map_needs_data[of sample_libs "start []"] show ?thesis
    by blast
qed


end
